theory Spec2Isabelle
  imports Complex_Main "HOL-Library.AList"
begin

section \<open>The Agno bridge: JSON values and the Python operations applied to them\<close>

text \<open>
  The bridge (\<^verbatim>\<open>server/agno/agnoBridge.py\<close>) is a Flask application: every handler reads
  the request body with \<^verbatim>\<open>request.json\<close>, so the values it works on are the Python
  images of JSON values. Python is dynamically typed, and the handlers apply
  \<^verbatim>\<open>in\<close>, \<^verbatim>\<open>[...]\<close>, \<^verbatim>\<open>.get\<close>, \<^verbatim>\<open>.lower()\<close>, truth tests and dictionary
  stores to whatever the body holds; each of these is modelled on every JSON value, with
  the exception Python raises as an error value.

  \<^item> \<open>JNull\<close> is \<^verbatim>\<open>None\<close>.
  \<^item> \<open>JFloat r\<close> is the float whose exact value is the rational \<open>r\<close>; the code never
    computes with floats, it stores and compares them.
  \<^item> \<open>JObj kvs\<close> is the dict with the items \<open>kvs\<close> in insertion order (keys distinct);
    a key is looked up with \<open>map_of\<close>.
  \<^item> A \<open>string\<close> is a list of 8-bit characters: the model is exact on ASCII text.
\<close>

datatype json =
    JNull
  | JBool bool
  | JInt int
  | JFloat rat
  | JStr string
  | JArr "json list"
  | JObj "(string \<times> json) list"

datatype py_error = TypeError | AttributeError | KeyError | IndexError

definition py_bind :: "py_error + 'a \<Rightarrow> ('a \<Rightarrow> py_error + 'b) \<Rightarrow> py_error + 'b" where
  "py_bind m f = (case m of Inl e \<Rightarrow> Inl e | Inr x \<Rightarrow> f x)"

text \<open>Python's truth test (\<^verbatim>\<open>if x:\<close>, \<^verbatim>\<open>x and y\<close>, \<^verbatim>\<open>x or y\<close>).\<close>

fun truthy :: "json \<Rightarrow> bool" where
  "truthy JNull = False"
| "truthy (JBool b) = b"
| "truthy (JInt i) = (i \<noteq> 0)"
| "truthy (JFloat r) = (r \<noteq> 0)"
| "truthy (JStr s) = (s \<noteq> [])"
| "truthy (JArr xs) = (xs \<noteq> [])"
| "truthy (JObj kvs) = (kvs \<noteq> [])"

text \<open>\<^verbatim>\<open>k in s\<close> on two strings is the substring test.\<close>

fun starts_with :: "string \<Rightarrow> string \<Rightarrow> bool" where
  "starts_with s [] = True"
| "starts_with [] (c # k) = False"
| "starts_with (d # s) (c # k) = (d = c \<and> starts_with s k)"

fun contains :: "string \<Rightarrow> string \<Rightarrow> bool" where
  "contains [] k = (k = [])"
| "contains (d # s) k = (starts_with (d # s) k \<or> contains s k)"

text \<open>
  \<^verbatim>\<open>k in c\<close> for a string literal \<open>k\<close>: key membership on a dict, element membership on
  a list, substring on a string, \<^verbatim>\<open>TypeError\<close> on \<^verbatim>\<open>None\<close>, booleans and numbers.
\<close>

fun py_in :: "string \<Rightarrow> json \<Rightarrow> py_error + bool" where
  "py_in k (JObj kvs) = Inr (map_of kvs k \<noteq> None)"
| "py_in k (JArr xs) = Inr (JStr k \<in> set xs)"
| "py_in k (JStr s) = Inr (contains s k)"
| "py_in k v = Inl TypeError"

text \<open>
  \<^verbatim>\<open>c[k]\<close> for a string literal \<open>k\<close>: the value on a dict (\<^verbatim>\<open>KeyError\<close> if absent),
  \<^verbatim>\<open>TypeError\<close> on everything else (a list or a string wants an integer index, the
  others are not subscriptable).
\<close>

fun py_getitem :: "json \<Rightarrow> string \<Rightarrow> py_error + json" where
  "py_getitem (JObj kvs) k = (case map_of kvs k of None \<Rightarrow> Inl KeyError | Some v \<Rightarrow> Inr v)"
| "py_getitem v k = Inl TypeError"

text \<open>The idiom \<^verbatim>\<open>c[k] if k in c else d\<close> of \<^verbatim>\<open>create_model\<close> and \<^verbatim>\<open>generate_response\<close>.\<close>

definition item_if_in :: "json \<Rightarrow> string \<Rightarrow> json \<Rightarrow> py_error + json" where
  "item_if_in c k d = py_bind (py_in k c) (\<lambda>present. if present then py_getitem c k else Inr d)"

text \<open>
  \<^verbatim>\<open>c.get(k, d)\<close>: only a dict has the method; on any other value the attribute lookup
  raises \<^verbatim>\<open>AttributeError\<close>. \<^verbatim>\<open>c.get(k)\<close> is \<^verbatim>\<open>c.get(k, None)\<close>.
\<close>

definition field_or :: "(string \<times> json) list \<Rightarrow> string \<Rightarrow> json \<Rightarrow> json" where
  "field_or kvs k d = (case map_of kvs k of None \<Rightarrow> d | Some v \<Rightarrow> v)"

fun py_get :: "json \<Rightarrow> string \<Rightarrow> json \<Rightarrow> py_error + json" where
  "py_get (JObj kvs) k d = Inr (field_or kvs k d)"
| "py_get v k d = Inl AttributeError"

text \<open>
  \<^verbatim>\<open>s.lower()\<close>: only a string has the method. The letters \<open>A\<close> to \<open>Z\<close> (codes 65 to 90)
  go to \<open>a\<close> to \<open>z\<close>; every other character is kept. Python also lowers letters beyond
  ASCII, always to characters beyond ASCII again except for the Kelvin sign (to \<open>k\<close>);
  neither \<^verbatim>\<open>openai\<close> nor \<^verbatim>\<open>anthropic\<close> has a \<open>k\<close>, so the comparisons of
  \<^verbatim>\<open>create_model\<close> come out the same.
\<close>

definition lower_char :: "char \<Rightarrow> char" where
  "lower_char c =
     (let n = (of_char c :: nat) in if 65 \<le> n \<and> n \<le> 90 then char_of (n + 32) else c)"

fun py_lower :: "json \<Rightarrow> py_error + string" where
  "py_lower (JStr s) = Inr (map lower_char s)"
| "py_lower v = Inl AttributeError"

text \<open>
  \<^verbatim>\<open>str(v)\<close>, which is also what an f-string puts for \<^verbatim>\<open>{v}\<close>: a string is itself, and
  every other JSON value is its \<^verbatim>\<open>repr\<close>. Python's built-in \<^verbatim>\<open>repr\<close> (shortest float
  digits, quoting rules inside containers) is a parameter of the model.
\<close>

definition py_str :: "(json \<Rightarrow> string) \<Rightarrow> json \<Rightarrow> string" where
  "py_str repr v = (case v of JStr s \<Rightarrow> s | _ \<Rightarrow> repr v)"

text \<open>
  \<^verbatim>\<open>for x in v\<close>: the elements of a list, the keys of a dict, the characters of a string,
  \<^verbatim>\<open>TypeError\<close> on a value that is not iterable.
\<close>

fun py_iter :: "json \<Rightarrow> py_error + json list" where
  "py_iter (JArr xs) = Inr xs"
| "py_iter (JObj kvs) = Inr (map (\<lambda>kv. JStr (fst kv)) kvs)"
| "py_iter (JStr s) = Inr (map (\<lambda>c. JStr [c]) s)"
| "py_iter v = Inl TypeError"

text \<open>
  Dictionary keys. A list or a dict is unhashable (\<^verbatim>\<open>TypeError\<close>); \<^verbatim>\<open>True\<close>, \<^verbatim>\<open>1\<close>
  and \<^verbatim>\<open>1.0\<close> are one key, since Python compares and hashes numbers by value.
\<close>

datatype key = KNone | KNum rat | KStr string

fun hash_key :: "json \<Rightarrow> py_error + key" where
  "hash_key JNull = Inr KNone"
| "hash_key (JBool b) = Inr (KNum (if b then 1 else 0))"
| "hash_key (JInt i) = Inr (KNum (of_int i))"
| "hash_key (JFloat r) = Inr (KNum r)"
| "hash_key (JStr s) = Inr (KStr s)"
| "hash_key (JArr xs) = Inl TypeError"
| "hash_key (JObj kvs) = Inl TypeError"

text \<open>\<^verbatim>\<open>len(xs) >= v\<close>: numbers and booleans compare with an int, nothing else does.\<close>

fun len_ge :: "nat \<Rightarrow> json \<Rightarrow> py_error + bool" where
  "len_ge n (JInt i) = Inr (i \<le> int n)"
| "len_ge n (JFloat r) = Inr (r \<le> of_nat n)"
| "len_ge n (JBool b) = Inr ((if b then 1 else 0) \<le> n)"
| "len_ge n v = Inl TypeError"

text \<open>\<^verbatim>\<open>xs.pop(0)\<close> removes the first element and raises \<^verbatim>\<open>IndexError\<close> on an empty list.\<close>

fun pop0 :: "'a list \<Rightarrow> py_error + 'a list" where
  "pop0 [] = Inl IndexError"
| "pop0 (x # xs) = Inr xs"

text \<open>The Python literal \<^verbatim>\<open>0.7\<close>: the double nearest to 7/10.\<close>

definition float_0_7 :: rat where
  "float_0_7 = 3152519739159347 / 4503599627370496"

section \<open>The mock Agno classes\<close>

text \<open>
  \<^verbatim>\<open>OpenAIChat\<close> and \<^verbatim>\<open>Claude\<close> have the same six attributes and differ in their
  \<^verbatim>\<open>response\<close> method; a model object is the attributes and its class.
\<close>

datatype model_class = OpenAIChat | Claude

record model =
  m_class :: model_class
  m_id :: json
  m_name :: json
  m_api_key :: "string option"
  m_temperature :: json
  m_max_tokens :: json
  m_system_prompt :: json

definition OpenAIChat_init ::
  "json \<Rightarrow> json \<Rightarrow> string option \<Rightarrow> json \<Rightarrow> json \<Rightarrow> json \<Rightarrow> model" where
  "OpenAIChat_init i name api_key temperature max_tokens system_prompt =
     \<lparr>m_class = OpenAIChat, m_id = i, m_name = name, m_api_key = api_key,
      m_temperature = temperature, m_max_tokens = max_tokens,
      m_system_prompt = system_prompt\<rparr>"

definition Claude_init ::
  "json \<Rightarrow> json \<Rightarrow> string option \<Rightarrow> json \<Rightarrow> json \<Rightarrow> json \<Rightarrow> model" where
  "Claude_init i name api_key temperature max_tokens system_prompt =
     \<lparr>m_class = Claude, m_id = i, m_name = name, m_api_key = api_key,
      m_temperature = temperature, m_max_tokens = max_tokens,
      m_system_prompt = system_prompt\<rparr>"

datatype message = Message (msg_role: json) (msg_content: json)

record agno_response =
  r_message :: message
  r_tool_calls :: json

text \<open>Both \<^verbatim>\<open>response\<close> methods ignore their argument.\<close>

definition response :: "model \<Rightarrow> message list \<Rightarrow> agno_response" where
  "response m messages =
     (case m_class m of
        OpenAIChat \<Rightarrow>
          \<lparr>r_message = Message (JStr ''assistant'')
             (JStr ''This is a response from the simulated OpenAI model.''),
           r_tool_calls = JNull\<rparr>
      | Claude \<Rightarrow>
          \<lparr>r_message = Message (JStr ''assistant'')
             (JStr ''This is a response from the simulated Claude model.''),
           r_tool_calls = JNull\<rparr>)"

text \<open>\<^verbatim>\<open>Function.__init__\<close>: \<^verbatim>\<open>parameters or {}\<close>.\<close>

record tool =
  f_name :: json
  f_description :: json
  f_parameters :: json

definition Function_init :: "json \<Rightarrow> json \<Rightarrow> json \<Rightarrow> tool" where
  "Function_init name description parameters =
     \<lparr>f_name = name, f_description = description,
      f_parameters = (if truthy parameters then parameters else JObj [])\<rparr>"

text \<open>
  \<^verbatim>\<open>Agent.__init__\<close>: \<^verbatim>\<open>tools or []\<close>; \<^verbatim>\<open>user_message\<close> and \<^verbatim>\<open>session_id\<close> start as
  \<^verbatim>\<open>None\<close>. The agent holds the model and tool objects themselves; no code mutates a
  model or a tool after its construction, so holding a copy is the same.
\<close>

record agent =
  a_name :: json
  a_agent_id :: json
  a_model :: "model option"
  a_system_message :: json
  a_tools :: "tool list"
  a_user_message :: json
  a_session_id :: "string option"

definition Agent_init :: "json \<Rightarrow> json \<Rightarrow> model option \<Rightarrow> json \<Rightarrow> tool list option \<Rightarrow> agent" where
  "Agent_init name agent_id mdl system_message tls =
     \<lparr>a_name = name, a_agent_id = agent_id, a_model = mdl, a_system_message = system_message,
      a_tools = (case tls of None \<Rightarrow> [] | Some ts \<Rightarrow> (if ts \<noteq> [] then ts else [])),
      a_user_message = JNull, a_session_id = None\<rparr>"

text \<open>
  \<^verbatim>\<open>Agent.run\<close>: an instance of a class without \<^verbatim>\<open>__bool__\<close> or \<^verbatim>\<open>__len__\<close> is true, so
  \<^verbatim>\<open>if self.model\<close> tests that the model is not \<^verbatim>\<open>None\<close>.
\<close>

definition run :: "(json \<Rightarrow> string) \<Rightarrow> agent \<Rightarrow> string" where
  "run repr a =
     (if a_model a \<noteq> None
      then ''I am '' @ py_str repr (a_name a) @ '', executing a response based on: ''
             @ py_str repr (a_user_message a)
      else ''No model available for this agent'')"

datatype memory = Memory (mem_content: json)

record memory_manager =
  mm_model :: "model option"
  mm_limit :: json
  mm_memories :: "memory list"

definition MemoryManager_init :: "model option \<Rightarrow> json \<Rightarrow> memory_manager" where
  "MemoryManager_init mdl limit = \<lparr>mm_model = mdl, mm_limit = limit, mm_memories = []\<rparr>"

text \<open>
  \<^verbatim>\<open>MemoryManager.add_memory\<close>. The comparison and the \<^verbatim>\<open>pop\<close> are the only steps that
  can raise, and both raise before anything is changed.
\<close>

definition MemoryManager_add_memory ::
  "memory_manager \<Rightarrow> json \<Rightarrow> py_error + (memory_manager \<times> bool)" where
  "MemoryManager_add_memory mm content =
     py_bind (len_ge (length (mm_memories mm)) (mm_limit mm)) (\<lambda>full.
     py_bind (if full then pop0 (mm_memories mm) else Inr (mm_memories mm)) (\<lambda>ms.
     Inr (mm\<lparr>mm_memories := ms @ [Memory content]\<rparr>, True)))"

text \<open>A sequence of \<^verbatim>\<open>add_memory\<close> calls on one manager; an exception ends it.\<close>

fun add_memories :: "memory_manager \<Rightarrow> json list \<Rightarrow> py_error + memory_manager" where
  "add_memories mm [] = Inr mm"
| "add_memories mm (c # cs) =
     py_bind (MemoryManager_add_memory mm c) (\<lambda>res. add_memories (fst res) cs)"

section \<open>The registries and the handlers\<close>

text \<open>
  The four module-level dicts. A Python dict keeps its keys in insertion order, and a
  store to a key that is present keeps the key's place: that is \<open>AList.update\<close> on an
  association list, read with \<open>map_of\<close>.
\<close>

record state =
  models :: "(key \<times> model) list"
  agents :: "(key \<times> agent) list"
  memory_managers :: "(key \<times> memory_manager) list"
  tools :: "(key \<times> tool) list"

text \<open>
  What a handler returns: \<open>Json code body\<close> is \<^verbatim>\<open>jsonify(body), code\<close> (200 when the
  source gives no code); \<open>ServerError e\<close> is the \<^verbatim>\<open>except Exception\<close> branch, status 500
  with a body \<^verbatim>\<open>{"error": str(e), "traceback": ...}\<close> whose texts are not modelled.
\<close>

datatype http_response = Json nat json | ServerError py_error

fun status_code :: "http_response \<Rightarrow> nat" where
  "status_code (Json code body) = code"
| "status_code (ServerError e) = 500"

text \<open>
  \<^verbatim>\<open>parse_json_params\<close>: \<^verbatim>\<open>request.json\<close> gives the parsed body (\<open>Inr\<close>) or raises
  with a message (\<open>Inl\<close>), which becomes the dict \<^verbatim>\<open>{"error": message}\<close>.
\<close>

type_synonym request = "string + json"

definition parse_json_params :: "request \<Rightarrow> json" where
  "parse_json_params request =
     (case request of Inr params \<Rightarrow> params | Inl e \<Rightarrow> JObj [(''error'', JStr e)])"

text \<open>
  Every handler body runs inside \<^verbatim>\<open>try: ... except Exception\<close>. In every handler the
  store into the registry (or the assignment to the agent's fields) comes after the last
  step that can raise, so the \<^verbatim>\<open>except\<close> branch answers with the registries as they
  were on entry.
\<close>

definition try_except :: "state \<Rightarrow> py_error + state \<times> http_response \<Rightarrow> state \<times> http_response" where
  "try_except st body = (case body of Inl e \<Rightarrow> (st, ServerError e) | Inr res \<Rightarrow> res)"

text \<open>
  \<^verbatim>\<open>create_model\<close> (\<^verbatim>\<open>POST /models\<close>). \<open>environ\<close> is \<^verbatim>\<open>os.environ\<close>. The branch on the
  lowered type either constructs a model or returns 400 at once (\<open>Inl\<close> of the inner sum);
  the store \<^verbatim>\<open>models[model_id] = model\<close> is the only mutation and the last step that
  can raise, so an exception leaves the registries as they were.
\<close>

definition create_model ::
  "(string \<times> string) list \<Rightarrow> (json \<Rightarrow> string) \<Rightarrow> state \<Rightarrow> request \<Rightarrow> state \<times> http_response" where
  "create_model environ repr st request =
     try_except st
       (let params = parse_json_params request in
        py_bind (item_if_in params ''type'' (JStr ''openai'')) (\<lambda>model_type.
        py_bind (item_if_in params ''id'' (JStr ''default-model'')) (\<lambda>model_id.
        py_bind (item_if_in params ''name'' (JStr ''Default Model'')) (\<lambda>model_name.
        py_bind (item_if_in params ''config'' (JObj [])) (\<lambda>model_config.
        py_bind (py_lower model_type) (\<lambda>lowered.
        py_bind
          (if lowered = ''openai'' then
             py_bind (item_if_in model_config ''model'' (JStr ''gpt-4o'')) (\<lambda>i.
             py_bind (item_if_in model_config ''temperature'' (JFloat float_0_7)) (\<lambda>temperature.
             py_bind (item_if_in model_config ''maxTokens'' JNull) (\<lambda>max_tokens.
             py_bind (item_if_in model_config ''systemPrompt'' JNull) (\<lambda>system_prompt.
             Inr (Inr (OpenAIChat_init i model_name (map_of environ ''OPENAI_API_KEY'')
                         temperature max_tokens system_prompt))))))
           else if lowered = ''anthropic'' then
             py_bind (item_if_in model_config ''model'' (JStr ''claude-3-7-sonnet-20250219'')) (\<lambda>i.
             py_bind (item_if_in model_config ''temperature'' (JFloat float_0_7)) (\<lambda>temperature.
             py_bind (item_if_in model_config ''maxTokens'' JNull) (\<lambda>max_tokens.
             py_bind (item_if_in model_config ''systemPrompt'' JNull) (\<lambda>system_prompt.
             Inr (Inr (Claude_init i model_name (map_of environ ''ANTHROPIC_API_KEY'')
                         temperature max_tokens system_prompt))))))
           else
             Inr (Inl (Json 400
               (JObj [(''error'', JStr (''Unsupported model type: '' @ py_str repr model_type))]))))
          (\<lambda>built.
             case built of
               Inl early \<Rightarrow> Inr (st, early)
             | Inr mdl \<Rightarrow>
                 py_bind (hash_key model_id) (\<lambda>k.
                 Inr (st\<lparr>models := AList.update k mdl (models st)\<rparr>,
                      Json 200 (JObj [(''id'', model_id), (''name'', model_name),
                                      (''type'', model_type), (''status'', JStr ''created'')]))))))))))"

text \<open>The conversion loop of \<^verbatim>\<open>generate_response\<close>.\<close>

fun convert_messages :: "json list \<Rightarrow> py_error + message list" where
  "convert_messages [] = Inr []"
| "convert_messages (msg # msgs) =
     py_bind (item_if_in msg ''role'' (JStr ''user'')) (\<lambda>role.
     py_bind (item_if_in msg ''content'' (JStr [])) (\<lambda>content.
     py_bind (convert_messages msgs) (\<lambda>rest.
     Inr (Message role content # rest))))"

text \<open>
  \<^verbatim>\<open>generate_response\<close> (\<^verbatim>\<open>POST /models/<model_id>/generate\<close>); the id comes from the
  URL and is a string. A \<^verbatim>\<open>Response\<close> object always has the attribute
  \<^verbatim>\<open>tool_calls\<close>.
\<close>

definition generate_response :: "state \<Rightarrow> string \<Rightarrow> request \<Rightarrow> state \<times> http_response" where
  "generate_response st model_id request =
     (case map_of (models st) (KStr model_id) of
        None \<Rightarrow>
          (st, Json 404 (JObj [(''error'', JStr (''Model '' @ model_id @ '' not found''))]))
      | Some mdl \<Rightarrow>
          try_except st
            (let params = parse_json_params request in
             py_bind (py_get params ''messages'' (JArr [])) (\<lambda>messages.
             py_bind (py_iter messages) (\<lambda>msgs.
             py_bind (convert_messages msgs) (\<lambda>agno_messages.
             let resp = response mdl agno_messages in
             Inr (st, Json 200 (JObj [(''content'', msg_content (r_message resp)),
                                      (''role'', msg_role (r_message resp)),
                                      (''tool_calls'', r_tool_calls resp)])))))))"

text \<open>
  The two lines that \<^verbatim>\<open>create_agent\<close> and \<^verbatim>\<open>create_memory_manager\<close> share:
  \<^verbatim>\<open>model_id and model_id not in models\<close>, and
  \<^verbatim>\<open>models.get(model_id) if model_id else None\<close>. Both hash the id when it is true.
\<close>

definition model_missing :: "state \<Rightarrow> json \<Rightarrow> py_error + bool" where
  "model_missing st model_id =
     (if truthy model_id
      then py_bind (hash_key model_id) (\<lambda>k. Inr (map_of (models st) k = None))
      else Inr False)"

definition model_or_none :: "state \<Rightarrow> json \<Rightarrow> py_error + model option" where
  "model_or_none st model_id =
     (if truthy model_id
      then py_bind (hash_key model_id) (\<lambda>k. Inr (map_of (models st) k))
      else Inr None)"



text \<open>
  \<^verbatim>\<open>run_agent\<close> (\<^verbatim>\<open>POST /agents/<agent_id>/run\<close>). The two \<^verbatim>\<open>.get\<close> calls are the
  only steps that can raise, and they come before the agent is touched. The agent object
  is changed in place; here the changed agent is stored back under its key.
\<close>

definition run_agent ::
  "(json \<Rightarrow> string) \<Rightarrow> state \<Rightarrow> string \<Rightarrow> request \<Rightarrow> state \<times> http_response" where
  "run_agent repr st agent_id request =
     (case map_of (agents st) (KStr agent_id) of
        None \<Rightarrow>
          (st, Json 404 (JObj [(''error'', JStr (''Agent '' @ agent_id @ '' not found''))]))
      | Some agent \<Rightarrow>
          try_except st
            (let params = parse_json_params request in
             py_bind (py_get params ''message'' (JStr [])) (\<lambda>message.
             py_bind (py_get params ''workspaceId'' JNull) (\<lambda>workspace_id.
             let agent1 = agent\<lparr>a_user_message := message\<rparr>;
                 agent2 = (if truthy workspace_id
                           then agent1\<lparr>a_session_id := Some (py_str repr workspace_id)\<rparr>
                           else agent1)
             in Inr (st\<lparr>agents := AList.update (KStr agent_id) agent2 (agents st)\<rparr>,
                     Json 200 (JObj [(''content'', JStr (run repr agent2)),
                                     (''agentId'', JStr agent_id),
                                     (''workspaceId'', workspace_id)]))))))"


text \<open>\<^verbatim>\<open>create_memory_manager\<close> (\<^verbatim>\<open>POST /memory\<close>).\<close>

definition create_memory_manager ::
  "(json \<Rightarrow> string) \<Rightarrow> state \<Rightarrow> request \<Rightarrow> state \<times> http_response" where
  "create_memory_manager repr st request =
     try_except st
       (let params = parse_json_params request in
        py_bind (py_get params ''id'' (JStr ''default-memory'')) (\<lambda>memory_id.
        py_bind (py_get params ''modelId'' JNull) (\<lambda>model_id.
        py_bind (model_missing st model_id) (\<lambda>missing.
        if missing then
          Inr (st, Json 404
            (JObj [(''error'', JStr (''Model '' @ py_str repr model_id @ '' not found''))]))
        else
          py_bind (model_or_none st model_id) (\<lambda>mdl.
          py_bind (py_get params ''limit'' (JInt 100)) (\<lambda>limit.
          py_bind (hash_key memory_id) (\<lambda>k.
          Inr (st\<lparr>memory_managers :=
                    AList.update k (MemoryManager_init mdl limit) (memory_managers st)\<rparr>,
               Json 200 (JObj [(''id'', memory_id), (''status'', JStr ''created'')])))))))))"

text \<open>\<^verbatim>\<open>add_memory\<close> (\<^verbatim>\<open>POST /memory/<memory_id>/add\<close>).\<close>

definition add_memory :: "state \<Rightarrow> string \<Rightarrow> request \<Rightarrow> state \<times> http_response" where
  "add_memory st memory_id request =
     (case map_of (memory_managers st) (KStr memory_id) of
        None \<Rightarrow>
          (st, Json 404
            (JObj [(''error'', JStr (''Memory manager '' @ memory_id @ '' not found''))]))
      | Some memory_manager \<Rightarrow>
          try_except st
            (let params = parse_json_params request in
             py_bind (py_get params ''content'' (JStr [])) (\<lambda>memory_content.
             py_bind (MemoryManager_add_memory memory_manager memory_content) (\<lambda>res.
             Inr (st\<lparr>memory_managers :=
                       AList.update (KStr memory_id) (fst res) (memory_managers st)\<rparr>,
                  Json 200 (JObj [(''result'', JBool (snd res)),
                                  (''status'', JStr ''success'')]))))))"

text \<open>A sequence of \<^verbatim>\<open>POST /memory/<memory_id>/add\<close> requests to one manager.\<close>

fun add_memory_calls :: "state \<Rightarrow> string \<Rightarrow> request list \<Rightarrow> state" where
  "add_memory_calls st memory_id [] = st"
| "add_memory_calls st memory_id (request # requests) =
     add_memory_calls (fst (add_memory st memory_id request)) memory_id requests"

section \<open>Example registries\<close>

text \<open>
  The registries at start-up, and the values that the instances below run on: a
  \<^verbatim>\<open>repr\<close> for requests whose formatted values are all strings (it is never called on
  them), one model, two tools, an agent with a model and one without.
\<close>

definition initial_state :: state where
  "initial_state = \<lparr>models = [], agents = [], memory_managers = [], tools = []\<rparr>"

definition repr_unused :: "json \<Rightarrow> string" where
  "repr_unused v = []"

definition example_model :: model where
  "example_model =
     Claude_init (JStr ''claude-3-7-sonnet-20250219'') (JStr ''Sonnet'') None
       (JFloat float_0_7) JNull JNull"

definition tool_a :: tool where
  "tool_a = Function_init (JStr ''search'') (JStr ''Web search'') (JObj [])"

definition tool_b :: tool where
  "tool_b = Function_init (JStr ''calc'') (JStr ''Arithmetic'') (JObj [])"

definition example_agent :: agent where
  "example_agent =
     Agent_init (JStr ''Helper'') (JStr ''a1'') (Some example_model) (JStr ''Be brief'') None"

definition idle_agent :: agent where
  "idle_agent = Agent_init (JStr ''Idle'') (JStr ''a2'') None (JStr []) None"

definition example_state :: state where
  "example_state =
     \<lparr>models = [(KStr ''m1'', example_model)],
      agents = [(KStr ''a1'', example_agent), (KStr ''a2'', idle_agent)],
      memory_managers = [],
      tools = [(KStr ''t1'', tool_a), (KStr ''t2'', tool_b)]\<rparr>"

section \<open>Evaluation rules for the Python operations\<close>

lemma py_bind_Inr [simp]: "py_bind (Inr x) f = f x"
  by (simp add: py_bind_def)

lemma py_bind_Inl [simp]: "py_bind (Inl e) f = Inl e"
  by (simp add: py_bind_def)

lemma item_if_in_dict [simp]: "item_if_in (JObj kvs) k d = Inr (field_or kvs k d)"
  by (cases "map_of kvs k") (simp_all add: item_if_in_def field_or_def)

lemma try_except_Inr [simp]: "try_except st (Inr res) = res"
  by (simp add: try_except_def)

lemma try_except_Inl [simp]: "try_except st (Inl e) = (st, ServerError e)"
  by (simp add: try_except_def)

lemma lower_char_CHR [simp]:
  "lower_char (Char b0 b1 b2 b3 b4 b5 b6 b7) =
     (if b6 \<and> \<not> b5 \<and> \<not> b7 \<and> (b0 \<or> b1 \<or> b2 \<or> b3 \<or> b4)
         \<and> \<not> (b4 \<and> b3 \<and> (b2 \<or> b1 \<and> b0))
      then Char b0 b1 b2 b3 b4 True b6 b7 else Char b0 b1 b2 b3 b4 b5 b6 b7)"
  by (cases b0; cases b1; cases b2; cases b3; cases b4; cases b5; cases b6; cases b7)
     (simp_all add: lower_char_def char_of_def bit_Suc_0_iff)

lemma py_str_JStr [simp]: "py_str repr (JStr s) = s"
  by (simp add: py_str_def)




section \<open>Claim C1: the memory manager is a bounded FIFO\<close>

lemma add_memory_step:
  assumes "mm_limit mm = JInt c" and "1 \<le> c" and "length (mm_memories mm) \<le> nat c"
  shows "MemoryManager_add_memory mm x =
           Inr (mm\<lparr>mm_memories :=
                  (if length (mm_memories mm) = nat c then tl (mm_memories mm)
                   else mm_memories mm) @ [Memory x]\<rparr>, True)"
proof (cases "mm_memories mm")
  case Nil
  with assms show ?thesis
    by (simp add: MemoryManager_add_memory_def py_bind_def)
next
  case (Cons y ys)
  with assms show ?thesis
    by (auto simp add: MemoryManager_add_memory_def py_bind_def)
qed

lemma add_memories_window:
  assumes "mm_limit mm = JInt c" and "1 \<le> c" and "length (mm_memories mm) \<le> nat c"
  shows "add_memories mm cs =
           Inr (mm\<lparr>mm_memories :=
                  drop (length (mm_memories mm) + length cs - nat c)
                    (mm_memories mm @ map Memory cs)\<rparr>)"
  using assms
proof (induction cs arbitrary: mm)
  case Nil
  then show ?case by simp
next
  case (Cons x cs)
  let ?ms = "mm_memories mm"
  let ?ms' = "(if length ?ms = nat c then tl ?ms else ?ms) @ [Memory x]"
  let ?mm' = "mm\<lparr>mm_memories := ?ms'\<rparr>"
  have step: "MemoryManager_add_memory mm x = Inr (?mm', True)"
    using Cons.prems by (rule add_memory_step)
  have len': "length ?ms' \<le> nat c"
    using Cons.prems by (cases ?ms) auto
  have lim': "mm_limit ?mm' = JInt c"
    using Cons.prems by simp
  have IH: "add_memories ?mm' cs =
      Inr (?mm'\<lparr>mm_memories := drop (length (mm_memories ?mm') + length cs - nat c)
                    (mm_memories ?mm' @ map Memory cs)\<rparr>)"
    using lim' Cons.prems(2) len'
    by (intro Cons.IH) simp_all
  have win: "drop (length ?ms' + length cs - nat c) (?ms' @ map Memory cs) =
             drop (length ?ms + length (x # cs) - nat c) (?ms @ map Memory (x # cs))"
  proof (cases "length ?ms = nat c")
    case True
    then obtain y ys where ys: "?ms = y # ys"
      using Cons.prems(2) by (cases ?ms) auto
    with True show ?thesis by simp
  next
    case False
    then show ?thesis by simp
  qed
  show ?case
    using step IH win by (simp add: py_bind_def)
qed

lemma add_memory_calls_lift:
  assumes "map_of (memory_managers st) (KStr memory_id) = Some mm"
    and "add_memories mm (map (\<lambda>kvs. field_or kvs ''content'' (JStr [])) bodies) = Inr mm'"
  shows "map_of (memory_managers
                   (add_memory_calls st memory_id (map (\<lambda>kvs. Inr (JObj kvs)) bodies)))
           (KStr memory_id) = Some mm'"
  using assms
proof (induction bodies arbitrary: st mm)
  case Nil
  then show ?case by simp
next
  case (Cons kvs bodies)
  let ?c = "field_or kvs ''content'' (JStr [])"
  from Cons.prems(2) obtain res where
    res: "MemoryManager_add_memory mm ?c = Inr res" and
    rest: "add_memories (fst res) (map (\<lambda>kvs. field_or kvs ''content'' (JStr [])) bodies) = Inr mm'"
    by (cases "MemoryManager_add_memory mm ?c") auto
  let ?st' = "fst (add_memory st memory_id (Inr (JObj kvs)))"
  have "?st' = st\<lparr>memory_managers :=
                    AList.update (KStr memory_id) (fst res) (memory_managers st)\<rparr>"
    using Cons.prems(1) res by (simp add: add_memory_def parse_json_params_def)
  then have "map_of (memory_managers ?st') (KStr memory_id) = Some (fst res)"
    by (simp add: update_conv')
  from Cons.IH [OF this rest] show ?case by simp
qed

text \<open>
  Claim C1. The registry holds, under \<open>memory_id\<close>, a manager as it is created with an
  integer capacity \<open>c \<ge> 1\<close>; then any number of \<^verbatim>\<open>add_memory\<close> requests with JSON-object
  bodies arrive for it. No call fails; afterwards the entries are the contents of the last
  \<open>c\<close> requests in the order they came (of all requests while fewer than \<open>c\<close> came), so
  there are at most \<open>c\<close> of them; and when there are exactly \<open>c\<close>, one more
  \<^verbatim>\<open>add_memory\<close> removes the first (oldest) entry only and appends the new one.
\<close>

theorem memory_manager_fifo:
  assumes "1 \<le> c"
    and "map_of (memory_managers st) (KStr memory_id) = Some (MemoryManager_init mdl (JInt c))"
  shows "\<exists>mm. map_of (memory_managers
                        (add_memory_calls st memory_id (map (\<lambda>kvs. Inr (JObj kvs)) bodies)))
                 (KStr memory_id) = Some mm
           \<and> mm_memories mm =
               map (\<lambda>kvs. Memory (field_or kvs ''content'' (JStr [])))
                 (drop (length bodies - nat c) bodies)
           \<and> int (length (mm_memories mm)) \<le> c
           \<and> (length (mm_memories mm) = nat c \<longrightarrow>
                (\<forall>x. MemoryManager_add_memory mm x =
                   Inr (mm\<lparr>mm_memories := tl (mm_memories mm) @ [Memory x]\<rparr>, True)))"
proof -
  let ?cs = "map (\<lambda>kvs. field_or kvs ''content'' (JStr [])) bodies"
  let ?m0 = "MemoryManager_init mdl (JInt c)"
  let ?mm = "?m0\<lparr>mm_memories := map Memory (drop (length ?cs - nat c) ?cs)\<rparr>"
  have run: "add_memories ?m0 ?cs = Inr ?mm"
    using add_memories_window [of ?m0 c ?cs] assms(1)
    by (simp add: MemoryManager_init_def drop_map)
  have "map_of (memory_managers
                  (add_memory_calls st memory_id (map (\<lambda>kvs. Inr (JObj kvs)) bodies)))
          (KStr memory_id) = Some ?mm"
    using assms(2) run by (rule add_memory_calls_lift)
  moreover have "mm_memories ?mm =
      map (\<lambda>kvs. Memory (field_or kvs ''content'' (JStr []))) (drop (length bodies - nat c) bodies)"
    by (simp add: drop_map)
  moreover have "int (length (mm_memories ?mm)) \<le> c"
    using assms(1) by simp
  moreover have "mm_limit ?mm = JInt c"
    by (simp add: MemoryManager_init_def)
  then have "\<forall>x. length (mm_memories ?mm) = nat c \<longrightarrow> MemoryManager_add_memory ?mm x =
                   Inr (?mm\<lparr>mm_memories := tl (mm_memories ?mm) @ [Memory x]\<rparr>, True)"
    using add_memory_step [of ?mm c] assms(1) by simp
  ultimately show ?thesis by blast
qed

text \<open>
  The instance of the specification: a manager created with capacity 2 receives the
  contents a, b, c and holds b, c.
\<close>

theorem memory_manager_fifo_witness:
  "map_of (memory_managers
      (add_memory_calls
         (fst (create_memory_manager repr_unused initial_state
                 (Inr (JObj [(''id'', JStr ''mem''), (''limit'', JInt 2)]))))
         ''mem''
         [Inr (JObj [(''content'', JStr ''a'')]), Inr (JObj [(''content'', JStr ''b'')]),
          Inr (JObj [(''content'', JStr ''c'')])]))
     (KStr ''mem'') =
   Some \<lparr>mm_model = None, mm_limit = JInt 2,
         mm_memories = [Memory (JStr ''b''), Memory (JStr ''c'')]\<rparr>"
  using memory_manager_fifo
    [of 2 "fst (create_memory_manager repr_unused initial_state
                 (Inr (JObj [(''id'', JStr ''mem''), (''limit'', JInt 2)])))"
        "''mem''" None
        "[[(''content'', JStr ''a'')], [(''content'', JStr ''b'')], [(''content'', JStr ''c'')]]"]
  by (simp add: create_memory_manager_def parse_json_params_def field_or_def initial_state_def
      model_missing_def model_or_none_def MemoryManager_init_def add_memory_def
      MemoryManager_add_memory_def)

section \<open>Claim C2: generate answers with the canned reply of the model's class\<close>

lemma convert_messages_dicts:
  assumes "\<forall>m\<in>set msgs. \<exists>f. m = JObj f"
  shows "\<exists>ms. convert_messages msgs = Inr ms"
  using assms by (induction msgs) auto

text \<open>
  The claim as stated names the third field of the reply \<^verbatim>\<open>toolCalls\<close>. The handler
  builds the reply with the key \<^verbatim>\<open>tool_calls\<close>: the body it sends has that key, with
  the value null, and no key \<^verbatim>\<open>toolCalls\<close>.
\<close>

theorem generate_reply_key_counterexample:
  "snd (generate_response example_state ''m1'' (Inr (JObj [(''messages'', JArr [])]))) =
     Json 200 (JObj [(''content'', JStr ''This is a response from the simulated Claude model.''),
                     (''role'', JStr ''assistant''), (''tool_calls'', JNull)])
   \<and> map_of [(''content'', JStr ''This is a response from the simulated Claude model.''),
              (''role'', JStr ''assistant''), (''tool_calls'', JNull)] ''toolCalls'' = None
   \<and> map_of [(''content'', JStr ''This is a response from the simulated Claude model.''),
              (''role'', JStr ''assistant''), (''tool_calls'', JNull)] ''tool_calls'' = Some JNull"
  by (simp add: generate_response_def parse_json_params_def field_or_def example_state_def
      example_model_def Claude_init_def response_def)

text \<open>
  Claim C2, amended. The model id is in the model registry, the request body is a JSON
  object and its \<^verbatim>\<open>messages\<close>, when present, is an array of objects (messages). Then
  \<^verbatim>\<open>generate_response\<close> answers 200 with \<^verbatim>\<open>content\<close> the fixed string of the model's
  class (one for \<^verbatim>\<open>OpenAIChat\<close>, one for \<^verbatim>\<open>Claude\<close>), \<^verbatim>\<open>role\<close> \<^verbatim>\<open>assistant\<close> and
  \<^verbatim>\<open>tool_calls\<close> null. Nothing of the messages reaches the answer, and the registries
  are as before.
\<close>

theorem generate_canned_reply:
  assumes "map_of (models st) (KStr model_id) = Some mdl"
    and "parse_json_params request = JObj kvs"
    and "field_or kvs ''messages'' (JArr []) = JArr msgs"
    and "\<forall>m\<in>set msgs. \<exists>f. m = JObj f"
  shows "generate_response st model_id request =
           (st, Json 200
                  (JObj [(''content'',
                          JStr (case m_class mdl of
                                  OpenAIChat \<Rightarrow> ''This is a response from the simulated OpenAI model.''
                                | Claude \<Rightarrow> ''This is a response from the simulated Claude model.'')),
                         (''role'', JStr ''assistant''),
                         (''tool_calls'', JNull)]))"
proof -
  obtain ms where ms: "convert_messages msgs = Inr ms"
    using convert_messages_dicts [OF assms(4)] by blast
  show ?thesis
    unfolding generate_response_def
    by (simp add: assms(1,2,3) ms response_def split: model_class.split)
qed

theorem generate_canned_reply_witness:
  "generate_response example_state ''m1''
     (Inr (JObj [(''messages'',
                  JArr [JObj [(''role'', JStr ''user''), (''content'', JStr ''Hello'')],
                        JObj [(''content'', JStr ''Anyone?'')]])])) =
   (example_state,
    Json 200 (JObj [(''content'', JStr ''This is a response from the simulated Claude model.''),
                    (''role'', JStr ''assistant''), (''tool_calls'', JNull)]))"
  using generate_canned_reply
    [of example_state "''m1''" example_model
        "Inr (JObj [(''messages'',
                  JArr [JObj [(''role'', JStr ''user''), (''content'', JStr ''Hello'')],
                        JObj [(''content'', JStr ''Anyone?'')]])])"
        "[(''messages'',
                  JArr [JObj [(''role'', JStr ''user''), (''content'', JStr ''Hello'')],
                        JObj [(''content'', JStr ''Anyone?'')]])]"
        "[JObj [(''role'', JStr ''user''), (''content'', JStr ''Hello'')],
                        JObj [(''content'', JStr ''Anyone?'')]]"]
  by (simp add: parse_json_params_def field_or_def example_state_def example_model_def
      Claude_init_def)

section \<open>Claim C3: an unsupported model type\<close>

text \<open>
  The claim as stated asks for 400 whenever the type is neither \<^verbatim>\<open>openai\<close> nor
  \<^verbatim>\<open>anthropic\<close>. The handler compares the lowered type, so \<^verbatim>\<open>OpenAI\<close> is neither of
  the two strings and is accepted: the call answers 200 and stores a model.
\<close>

theorem create_model_mixed_case_counterexample:
  "''OpenAI'' \<noteq> ''openai'' \<and> ''OpenAI'' \<noteq> ''anthropic'' \<and>
   status_code (snd (create_model [] repr_unused initial_state
                       (Inr (JObj [(''type'', JStr ''OpenAI'')])))) = 200 \<and>
   models (fst (create_model [] repr_unused initial_state
                  (Inr (JObj [(''type'', JStr ''OpenAI'')])))) \<noteq> models initial_state"
  by (simp add: create_model_def parse_json_params_def field_or_def initial_state_def)

text \<open>
  Claim C3, amended. The request body is a JSON object whose \<^verbatim>\<open>type\<close> is a string
  that, lowered, is neither \<^verbatim>\<open>openai\<close> nor \<^verbatim>\<open>anthropic\<close>. Then \<^verbatim>\<open>create_model\<close>
  answers 400 with the error \<^verbatim>\<open>Unsupported model type: \<close> followed by the type as
  sent, and all four registries are as before.
\<close>

theorem create_model_unsupported_type:
  assumes "parse_json_params request = JObj kvs"
    and "map_of kvs ''type'' = Some (JStr t)"
    and "map lower_char t \<noteq> ''openai''"
    and "map lower_char t \<noteq> ''anthropic''"
  shows "create_model environ repr st request =
           (st, Json 400 (JObj [(''error'', JStr (''Unsupported model type: '' @ t))]))"
proof -
  have ty: "field_or kvs ''type'' (JStr ''openai'') = JStr t"
    using assms(2) by (simp add: field_or_def)
  show ?thesis
    unfolding create_model_def
    by (simp add: assms(1,3,4) ty)
qed

theorem create_model_unsupported_type_witness:
  "create_model [] repr_unused initial_state (Inr (JObj [(''type'', JStr ''unsupported'')])) =
     (initial_state, Json 400 (JObj [(''error'', JStr ''Unsupported model type: unsupported'')]))"
  using create_model_unsupported_type
    [of "Inr (JObj [(''type'', JStr ''unsupported'')])" "[(''type'', JStr ''unsupported'')]"
        "''unsupported''" "[]" repr_unused initial_state]
  by (simp add: parse_json_params_def)

section \<open>Claim C4: creating an id again replaces the entry\<close>










section \<open>Claim C5: tool ids that are not registered are dropped\<close>




section \<open>Claim C6: what running an agent answers\<close>

text \<open>
  Claim C6. The agent id is in the agent registry and the request body is a JSON object.
  Then \<^verbatim>\<open>run_agent\<close> answers 200 with \<^verbatim>\<open>content\<close>, \<^verbatim>\<open>agentId\<close> and \<^verbatim>\<open>workspaceId\<close>;
  the content is \<^verbatim>\<open>I am {name}, executing a response based on: {message}\<close> when the
  agent holds a model and \<^verbatim>\<open>No model available for this agent\<close> when it holds none.
\<close>

theorem run_agent_content:
  assumes "map_of (agents st) (KStr agent_id) = Some a"
    and "parse_json_params request = JObj kvs"
  shows "snd (run_agent repr st agent_id request) =
           Json 200
             (JObj [(''content'',
                     JStr (if a_model a \<noteq> None
                           then ''I am '' @ py_str repr (a_name a)
                                  @ '', executing a response based on: ''
                                  @ py_str repr (field_or kvs ''message'' (JStr []))
                           else ''No model available for this agent'')),
                    (''agentId'', JStr agent_id),
                    (''workspaceId'', field_or kvs ''workspaceId'' JNull)])"
  unfolding run_agent_def
  by (simp add: assms run_def Let_def)

theorem run_agent_content_witness:
  "snd (run_agent repr_unused example_state ''a1''
          (Inr (JObj [(''message'', JStr ''hi''), (''workspaceId'', JStr ''ws-7'')]))) =
     Json 200 (JObj [(''content'', JStr ''I am Helper, executing a response based on: hi''),
                     (''agentId'', JStr ''a1''), (''workspaceId'', JStr ''ws-7'')])
   \<and> snd (run_agent repr_unused example_state ''a2'' (Inr (JObj [(''message'', JStr ''hi'')]))) =
     Json 200 (JObj [(''content'', JStr ''No model available for this agent''),
                     (''agentId'', JStr ''a2''), (''workspaceId'', JNull)])"
  using run_agent_content
    [of example_state "''a1''" example_agent
        "Inr (JObj [(''message'', JStr ''hi''), (''workspaceId'', JStr ''ws-7'')])"
        "[(''message'', JStr ''hi''), (''workspaceId'', JStr ''ws-7'')]" repr_unused]
    run_agent_content
    [of example_state "''a2''" idle_agent "Inr (JObj [(''message'', JStr ''hi'')])"
        "[(''message'', JStr ''hi'')]" repr_unused]
  by (simp add: parse_json_params_def field_or_def example_state_def example_agent_def
      idle_agent_def Agent_init_def)

section \<open>Claim C7: what running an agent changes\<close>

text \<open>
  What \<^verbatim>\<open>run_agent\<close> changes, as the code is written. The agent id is in the agent
  registry. If the request body is a JSON object, the agent's \<^verbatim>\<open>user_message\<close> becomes
  the request message (the empty string if there is none), and its \<^verbatim>\<open>session_id\<close>
  becomes \<^verbatim>\<open>str(workspaceId)\<close> when the test \<^verbatim>\<open>if workspace_id\<close> succeeds and stays
  as it was when the test fails. The other fields of the agent, the other agents and the
  other three registries are as before. A body that is not an object changes nothing.
\<close>

lemma run_agent_effect:
  assumes "map_of (agents st) (KStr agent_id) = Some a"
  shows "(let st' = fst (run_agent repr st agent_id request) in
          st' =
            (case parse_json_params request of
               JObj kvs \<Rightarrow>
                 st\<lparr>agents :=
                      AList.update (KStr agent_id)
                        (a\<lparr>a_user_message := field_or kvs ''message'' (JStr []),
                           a_session_id :=
                             (if truthy (field_or kvs ''workspaceId'' JNull)
                              then Some (py_str repr (field_or kvs ''workspaceId'' JNull))
                              else a_session_id a)\<rparr>)
                        (agents st)\<rparr>
             | _ \<Rightarrow> st)
          \<and> models st' = models st \<and> tools st' = tools st
          \<and> memory_managers st' = memory_managers st
          \<and> map fst (agents st') = map fst (agents st)
          \<and> (\<forall>k. k \<noteq> KStr agent_id \<longrightarrow> map_of (agents st') k = map_of (agents st) k))"
proof -
  have present: "KStr agent_id \<in> fst ` set (agents st)"
    using assms by (metis domI dom_map_of_conv_image_fst)
  show ?thesis
    unfolding run_agent_def Let_def
    by (cases "parse_json_params request")
       (simp_all add: assms update_conv' update_keys present)
qed

lemma run_agent_effect_example:
  "fst (run_agent repr_unused example_state ''a1''
          (Inr (JObj [(''message'', JStr ''hi''), (''workspaceId'', JStr ''ws-7'')]))) =
     example_state\<lparr>agents :=
       [(KStr ''a1'', example_agent\<lparr>a_user_message := JStr ''hi'', a_session_id := Some ''ws-7''\<rparr>),
        (KStr ''a2'', idle_agent)]\<rparr>"
  using run_agent_effect
    [of example_state "''a1''" example_agent repr_unused
        "Inr (JObj [(''message'', JStr ''hi''), (''workspaceId'', JStr ''ws-7'')])"]
  by (simp add: parse_json_params_def field_or_def example_state_def Let_def)

text \<open>
  Claim C7. The claim sets the agent's session id to the stringified \<^verbatim>\<open>workspaceId\<close>
  whenever one is given, and the comment above the test in \<^verbatim>\<open>run_agent\<close> says the same
  (\<^verbatim>\<open>If workspace_id is provided, set up session context\<close>). The test is the truth test
  \<^verbatim>\<open>if workspace_id\<close>, which fails on a \<^verbatim>\<open>workspaceId\<close> that is given and is 0: the
  call below, on a registered agent with the body
  \<^verbatim>\<open>{"message": "hi", "workspaceId": 0}\<close>, stores the message and answers 200 with the
  \<^verbatim>\<open>workspaceId\<close> 0 in the reply, and the agent's session id is still \<^verbatim>\<open>None\<close> where
  the claim has \<^verbatim>\<open>"0"\<close>.
\<close>

theorem run_agent_workspace_zero:
  "map_of (agents (fst (run_agent repr_unused example_state ''a1''
                          (Inr (JObj [(''message'', JStr ''hi''), (''workspaceId'', JInt 0)])))))
     (KStr ''a1'') = Some (example_agent\<lparr>a_user_message := JStr ''hi''\<rparr>)
   \<and> a_session_id (example_agent\<lparr>a_user_message := JStr ''hi''\<rparr>) = None
   \<and> snd (run_agent repr_unused example_state ''a1''
            (Inr (JObj [(''message'', JStr ''hi''), (''workspaceId'', JInt 0)]))) =
       Json 200 (JObj [(''content'', JStr ''I am Helper, executing a response based on: hi''),
                       (''agentId'', JStr ''a1''), (''workspaceId'', JInt 0)])"
  by (simp add: run_agent_def run_def parse_json_params_def field_or_def example_state_def
      example_agent_def Agent_init_def Let_def)

section \<open>Claim C8: generate on an unknown model id\<close>

text \<open>
  Claim C8. When the model id is not in the model registry, \<^verbatim>\<open>generate_response\<close>
  answers 404 with the JSON body \<^verbatim>\<open>{"error": "Model <id> not found"}\<close>, whatever the
  request body is, and all four registries are as before.
\<close>

theorem generate_unknown_model:
  assumes "map_of (models st) (KStr model_id) = None"
  shows "generate_response st model_id request =
           (st, Json 404 (JObj [(''error'', JStr (''Model '' @ model_id @ '' not found''))]))"
  using assms by (simp add: generate_response_def)

theorem generate_unknown_model_witness:
  "generate_response initial_state ''ghost'' (Inr (JObj [(''messages'', JArr [])])) =
     (initial_state, Json 404 (JObj [(''error'', JStr ''Model ghost not found'')]))"
  using generate_unknown_model [of initial_state "''ghost''" "Inr (JObj [(''messages'', JArr [])])"]
  by (simp add: initial_state_def)

section \<open>Claim C9: the defaults of an OpenAI model\<close>

text \<open>
  Claim C9. The request body is a JSON object whose \<^verbatim>\<open>type\<close> is \<^verbatim>\<open>openai\<close> or absent
  and whose \<^verbatim>\<open>config\<close> is absent (or the empty object), and its \<^verbatim>\<open>id\<close> can be a
  dictionary key. Then \<^verbatim>\<open>create_model\<close> stores under that id an \<^verbatim>\<open>OpenAIChat\<close> whose
  model field is \<^verbatim>\<open>gpt-4o\<close>, whose temperature is 0.7 and whose \<^verbatim>\<open>max_tokens\<close> and
  \<^verbatim>\<open>system_prompt\<close> are \<^verbatim>\<open>None\<close>, and answers 200 with the id, the name, the type
  \<^verbatim>\<open>openai\<close> and the status \<^verbatim>\<open>created\<close>.
\<close>

theorem create_model_openai_defaults:
  assumes "parse_json_params request = JObj kvs"
    and "map_of kvs ''type'' = None \<or> map_of kvs ''type'' = Some (JStr ''openai'')"
    and "field_or kvs ''config'' (JObj []) = JObj []"
    and "hash_key (field_or kvs ''id'' (JStr ''default-model'')) = Inr k"
  shows "create_model environ repr st request =
           (st\<lparr>models :=
                 AList.update k
                   \<lparr>m_class = OpenAIChat, m_id = JStr ''gpt-4o'',
                    m_name = field_or kvs ''name'' (JStr ''Default Model''),
                    m_api_key = map_of environ ''OPENAI_API_KEY'',
                    m_temperature = JFloat float_0_7,
                    m_max_tokens = JNull, m_system_prompt = JNull\<rparr>
                   (models st)\<rparr>,
            Json 200 (JObj [(''id'', field_or kvs ''id'' (JStr ''default-model'')),
                            (''name'', field_or kvs ''name'' (JStr ''Default Model'')),
                            (''type'', JStr ''openai''),
                            (''status'', JStr ''created'')]))"
proof -
  have ty: "field_or kvs ''type'' (JStr ''openai'') = JStr ''openai''"
    using assms(2) by (auto simp add: field_or_def)
  have empty: "\<And>f d. field_or [] f d = d"
    by (simp add: field_or_def)
  show ?thesis
    unfolding create_model_def
    by (simp add: assms(1,3,4) ty empty OpenAIChat_init_def)
qed

theorem create_model_openai_defaults_witness:
  "create_model [(''OPENAI_API_KEY'', ''sk-test'')] repr_unused initial_state
     (Inr (JObj [(''id'', JStr ''m1''), (''name'', JStr ''My model'')])) =
   (initial_state\<lparr>models :=
      [(KStr ''m1'',
        \<lparr>m_class = OpenAIChat, m_id = JStr ''gpt-4o'', m_name = JStr ''My model'',
         m_api_key = Some ''sk-test'', m_temperature = JFloat float_0_7,
         m_max_tokens = JNull, m_system_prompt = JNull\<rparr>)]\<rparr>,
    Json 200 (JObj [(''id'', JStr ''m1''), (''name'', JStr ''My model''),
                    (''type'', JStr ''openai''), (''status'', JStr ''created'')]))"
  using create_model_openai_defaults
    [of "Inr (JObj [(''id'', JStr ''m1''), (''name'', JStr ''My model'')])"
        "[(''id'', JStr ''m1''), (''name'', JStr ''My model'')]" "KStr ''m1''"
        "[(''OPENAI_API_KEY'', ''sk-test'')]" repr_unused initial_state]
  by (simp add: parse_json_params_def field_or_def initial_state_def)

section \<open>Claim C10: the model type is matched without regard to case\<close>

lemma create_model_openai:
  assumes "parse_json_params request = JObj kvs"
    and "field_or kvs ''type'' (JStr ''openai'') = JStr t"
    and "map lower_char t = ''openai''"
    and "field_or kvs ''config'' (JObj []) = JObj cfg"
    and "hash_key (field_or kvs ''id'' (JStr ''default-model'')) = Inr k"
  shows "create_model environ repr st request =
           (st\<lparr>models :=
                 AList.update k
                   (OpenAIChat_init (field_or cfg ''model'' (JStr ''gpt-4o''))
                      (field_or kvs ''name'' (JStr ''Default Model''))
                      (map_of environ ''OPENAI_API_KEY'')
                      (field_or cfg ''temperature'' (JFloat float_0_7))
                      (field_or cfg ''maxTokens'' JNull)
                      (field_or cfg ''systemPrompt'' JNull))
                   (models st)\<rparr>,
            Json 200 (JObj [(''id'', field_or kvs ''id'' (JStr ''default-model'')),
                            (''name'', field_or kvs ''name'' (JStr ''Default Model'')),
                            (''type'', JStr t),
                            (''status'', JStr ''created'')]))"
  unfolding create_model_def by (simp add: assms)

lemma create_model_anthropic:
  assumes "parse_json_params request = JObj kvs"
    and "field_or kvs ''type'' (JStr ''openai'') = JStr t"
    and "map lower_char t = ''anthropic''"
    and "field_or kvs ''config'' (JObj []) = JObj cfg"
    and "hash_key (field_or kvs ''id'' (JStr ''default-model'')) = Inr k"
  shows "create_model environ repr st request =
           (st\<lparr>models :=
                 AList.update k
                   (Claude_init (field_or cfg ''model'' (JStr ''claude-3-7-sonnet-20250219''))
                      (field_or kvs ''name'' (JStr ''Default Model''))
                      (map_of environ ''ANTHROPIC_API_KEY'')
                      (field_or cfg ''temperature'' (JFloat float_0_7))
                      (field_or cfg ''maxTokens'' JNull)
                      (field_or cfg ''systemPrompt'' JNull))
                   (models st)\<rparr>,
            Json 200 (JObj [(''id'', field_or kvs ''id'' (JStr ''default-model'')),
                            (''name'', field_or kvs ''name'' (JStr ''Default Model'')),
                            (''type'', JStr t),
                            (''status'', JStr ''created'')]))"
  unfolding create_model_def by (simp add: assms)

text \<open>
  Claim C10. The request body is a JSON object whose \<^verbatim>\<open>type\<close> is a string \<open>t\<close> that,
  lowered, is \<^verbatim>\<open>openai\<close> or \<^verbatim>\<open>anthropic\<close>; its \<^verbatim>\<open>config\<close> is absent or an object and
  its \<^verbatim>\<open>id\<close> can be a dictionary key. Then \<^verbatim>\<open>create_model\<close> answers 200 and stores
  a model of the matching class (\<^verbatim>\<open>OpenAIChat\<close> or \<^verbatim>\<open>Claude\<close>), and the \<^verbatim>\<open>type\<close>
  of the answer is \<open>t\<close> as the caller wrote it.
\<close>

theorem create_model_case_insensitive:
  assumes "parse_json_params request = JObj kvs"
    and "map_of kvs ''type'' = Some (JStr t)"
    and "map lower_char t = ''openai'' \<or> map lower_char t = ''anthropic''"
    and "field_or kvs ''config'' (JObj []) = JObj cfg"
    and "hash_key (field_or kvs ''id'' (JStr ''default-model'')) = Inr k"
  shows "\<exists>mdl. create_model environ repr st request =
           (st\<lparr>models := AList.update k mdl (models st)\<rparr>,
            Json 200 (JObj [(''id'', field_or kvs ''id'' (JStr ''default-model'')),
                            (''name'', field_or kvs ''name'' (JStr ''Default Model'')),
                            (''type'', JStr t),
                            (''status'', JStr ''created'')]))
         \<and> m_class mdl = (if map lower_char t = ''openai'' then OpenAIChat else Claude)"
proof -
  have ty: "field_or kvs ''type'' (JStr ''openai'') = JStr t"
    using assms(2) by (simp add: field_or_def)
  from assms(3) show ?thesis
  proof
    assume low: "map lower_char t = ''openai''"
    show ?thesis
      using create_model_openai [OF assms(1) ty low assms(4,5), of environ repr st] low
      by (auto simp add: OpenAIChat_init_def)
  next
    assume low: "map lower_char t = ''anthropic''"
    show ?thesis
      using create_model_anthropic [OF assms(1) ty low assms(4,5), of environ repr st] low
      by (auto simp add: Claude_init_def)
  qed
qed

theorem create_model_case_insensitive_witness:
  "\<exists>mdl. create_model [] repr_unused initial_state
           (Inr (JObj [(''type'', JStr ''ANTHROPIC''), (''id'', JStr ''m2'')])) =
          (initial_state\<lparr>models := [(KStr ''m2'', mdl)]\<rparr>,
           Json 200 (JObj [(''id'', JStr ''m2''), (''name'', JStr ''Default Model''),
                           (''type'', JStr ''ANTHROPIC''), (''status'', JStr ''created'')]))
        \<and> m_class mdl = Claude"
  using create_model_case_insensitive
    [of "Inr (JObj [(''type'', JStr ''ANTHROPIC''), (''id'', JStr ''m2'')])"
        "[(''type'', JStr ''ANTHROPIC''), (''id'', JStr ''m2'')]" "''ANTHROPIC''" "[]"
        "KStr ''m2''" "[]" repr_unused initial_state]
  by (simp add: parse_json_params_def field_or_def initial_state_def)

end
